theory Spec2Isabelle
  imports Main "HOL-Library.Sublist"
begin

section \<open>Values shared by the server actions and route handlers\<close>

text \<open>
  A JavaScript string is modelled as a \<^typ>\<open>string\<close>; \<^const>\<open>length\<close> stands for the
  \<^verbatim>\<open>.length\<close> of the source string. A value that may be \<^verbatim>\<open>null\<close> or
  \<^verbatim>\<open>undefined\<close> is an option.

  The user-facing message literals of the source are not ASCII; each literal is one
  constructor of \<open>message\<close>, and the two template literals take the interpolated
  \<^verbatim>\<open>error.message\<close> as an argument.
\<close>

datatype message =
    Msg_email_invalid        \<comment> \<open>\<^verbatim>\<open>.email(...)\<close>: enter a valid e-mail address\<close>
  | Msg_email_empty          \<comment> \<open>\<^verbatim>\<open>.min(1, ...)\<close> on email\<close>
  | Msg_password_too_short   \<comment> \<open>\<^verbatim>\<open>.min(6, ...)\<close> on password\<close>
  | Msg_password_too_long    \<comment> \<open>\<^verbatim>\<open>.max(100, ...)\<close> on password\<close>
  | Msg_username_too_short   \<comment> \<open>\<^verbatim>\<open>.min(3, ...)\<close> on username\<close>
  | Msg_username_too_long    \<comment> \<open>\<^verbatim>\<open>.max(50, ...)\<close> on username\<close>
  | Msg_username_charset     \<comment> \<open>\<^verbatim>\<open>.regex(...)\<close> on username\<close>
  | Msg_confirm_empty        \<comment> \<open>\<^verbatim>\<open>.min(1, ...)\<close> on confirmPassword\<close>
  | Msg_password_mismatch    \<comment> \<open>the \<^verbatim>\<open>.refine\<close> message: the two passwords differ\<close>
  | Msg_expected_string      \<comment> \<open>the validation library's own message for a non-string\<close>
  | Msg_form_invalid         \<comment> \<open>fallback when the first issue has no message\<close>
  | Msg_no_token             \<comment> \<open>login: the server returned no token\<close>
  | Msg_login_failed string  \<comment> \<open>login: prefix followed by \<^verbatim>\<open>error.message\<close>\<close>
  | Msg_login_unknown        \<comment> \<open>login: unknown error\<close>
  | Msg_email_taken          \<comment> \<open>register: e-mail already registered\<close>
  | Msg_username_taken       \<comment> \<open>register: username already used\<close>
  | Msg_register_failed string \<comment> \<open>register: prefix followed by \<^verbatim>\<open>error.message\<close>\<close>
  | Msg_register_unknown     \<comment> \<open>register: unknown error\<close>
  | Msg_logout_ok            \<comment> \<open>logout route: success message\<close>
  | Msg_logout_failed        \<comment> \<open>logout route: default failure text\<close>
  | Msg_status_failed        \<comment> \<open>status route: default failure text\<close>
  | Msg_thrown string        \<comment> \<open>\<^verbatim>\<open>error.message\<close> passed through unchanged\<close>

text \<open>What a \<^verbatim>\<open>catch\<close> clause receives: an \<^verbatim>\<open>Error\<close> instance with its message, or any
  other thrown value (\<^verbatim>\<open>error instanceof Error\<close> is false).\<close>

datatype thrown = Error string | NotAnError

text \<open>The result of awaiting a call of the generated API client: the promise rejects
  (network failure) or resolves with a response.\<close>

datatype 'a outcome = Rejects thrown | Resolves 'a

subsection \<open>The cookie store of a request\<close>

datatype same_site = Lax | Strict | NoSameSite

record cookie =
  cvalue :: string
  httpOnly :: bool
  secure :: bool
  sameSite :: same_site
  maxAge :: nat
  path :: string

text \<open>
  The request scope of a server action or route handler: the cookie store that
  \<^verbatim>\<open>cookies()\<close> resolves to, keyed by cookie name, and the value of
  \<^verbatim>\<open>process.env.NODE_ENV\<close>. Every use of \<^verbatim>\<open>cookies()\<close> in the source sits in a
  \<^verbatim>\<open>try\<close> block; \<open>cookies_failure\<close> is \<open>Some e\<close> when the accessor throws \<open>e\<close>
  and \<open>None\<close> when it resolves.
\<close>

record request_ctx =
  jar :: "string \<rightharpoonup> cookie"
  cookies_failure :: "thrown option"
  node_env :: string

text \<open>\<^verbatim>\<open>cookieStore.get("auth-token")?.value\<close>\<close>

definition get_token :: "request_ctx \<Rightarrow> string option" where
  "get_token rc = map_option cvalue (jar rc ''auth-token'')"

text \<open>JavaScript truthiness of \<^verbatim>\<open>string | undefined\<close>: defined and not empty.\<close>

fun truthy :: "string option \<Rightarrow> bool" where
  "truthy None = False"
| "truthy (Some s) = (s \<noteq> [])"

text \<open>\<^verbatim>\<open>cookieStore.delete("auth-token")\<close>\<close>

definition delete_token :: "request_ctx \<Rightarrow> request_ctx" where
  "delete_token rc = rc\<lparr>jar := (jar rc)(''auth-token'' := None)\<rparr>"

text \<open>The five options of \<^verbatim>\<open>cookieStore.set("auth-token", token, {...})\<close> in
  \<^verbatim>\<open>login\<close>.\<close>

definition auth_cookie :: "string \<Rightarrow> string \<Rightarrow> cookie" where
  "auth_cookie env token =
     \<lparr>cvalue = token, httpOnly = True, secure = (env = ''production''),
      sameSite = Lax, maxAge = 60 * 60 * 24 * 7, path = ''/''\<rparr>"

definition set_token :: "string \<Rightarrow> request_ctx \<Rightarrow> request_ctx" where
  "set_token token rc =
     rc\<lparr>jar := (jar rc)(''auth-token'' \<mapsto> auth_cookie (node_env rc) token)\<rparr>"

subsection \<open>Form validation\<close>

text \<open>
  The schemas are built with the validation library zod, which is not part of the
  repository. Its behaviour on the schemas used here:
  \<^item> \<^verbatim>\<open>z.string()\<close> applied to a non-string reports one issue and aborts; applied to a
    string it runs every check in the order written and reports one issue per failing
    check;
  \<^item> \<^verbatim>\<open>z.object\<close> parses the keys in the order of the shape and collects the issues in
    that order;
  \<^item> \<^verbatim>\<open>.refine\<close> runs its predicate unless the object aborted, and appends its issue;
  \<^item> \<^verbatim>\<open>safeParse\<close> succeeds exactly when there is no issue.
  The e-mail pattern of the library is a parameter \<open>is_email\<close>.
\<close>

datatype check =
    Email message
  | Min nat message
  | Max nat message
  | Regex_ident message   \<comment> \<open>\<^verbatim>\<open>/^[a-zA-Z0-9_]+$/\<close>\<close>

definition ident_char :: "char \<Rightarrow> bool" where
  "ident_char c =
     (let n = (of_char c :: nat)
      in (97 \<le> n \<and> n \<le> 122) \<or> (65 \<le> n \<and> n \<le> 90) \<or> (48 \<le> n \<and> n \<le> 57) \<or> n = 95)"

fun check_ok :: "(string \<Rightarrow> bool) \<Rightarrow> check \<Rightarrow> string \<Rightarrow> bool" where
  "check_ok is_email (Email m) s = is_email s"
| "check_ok is_email (Min n m) s = (n \<le> length s)"
| "check_ok is_email (Max n m) s = (length s \<le> n)"
| "check_ok is_email (Regex_ident m) s = (s \<noteq> [] \<and> list_all ident_char s)"

fun check_message :: "check \<Rightarrow> message" where
  "check_message (Email m) = m"
| "check_message (Min n m) = m"
| "check_message (Max n m) = m"
| "check_message (Regex_ident m) = m"

text \<open>One key of an object schema: the issues it reports, and whether it aborted.\<close>

fun parse_string :: "(string \<Rightarrow> bool) \<Rightarrow> check list \<Rightarrow> string option \<Rightarrow> message list \<times> bool" where
  "parse_string is_email cs None = ([Msg_expected_string], True)"
| "parse_string is_email cs (Some s) =
     (map check_message (filter (\<lambda>c. \<not> check_ok is_email c s) cs), False)"

type_synonym form = "string \<rightharpoonup> string"

record schema =
  shape :: "(string \<times> check list) list"
  refinement :: "((form \<Rightarrow> bool) \<times> message) option"

text \<open>The issues reported by the keys of the object for their own checks, in the order
  of the shape, and whether one of the keys aborted.\<close>

definition field_issues :: "(string \<Rightarrow> bool) \<Rightarrow> schema \<Rightarrow> form \<Rightarrow> message list" where
  "field_issues is_email sc data =
     concat (map (\<lambda>(k, cs). fst (parse_string is_email cs (data k))) (shape sc))"

definition aborted :: "(string \<Rightarrow> bool) \<Rightarrow> schema \<Rightarrow> form \<Rightarrow> bool" where
  "aborted is_email sc data =
     list_ex (\<lambda>(k, cs). snd (parse_string is_email cs (data k))) (shape sc)"

text \<open>The issues of \<^verbatim>\<open>schema.safeParse(data)\<close>; the parse succeeded when the list is empty.\<close>

definition safeParse :: "(string \<Rightarrow> bool) \<Rightarrow> schema \<Rightarrow> form \<Rightarrow> message list" where
  "safeParse is_email sc data =
     (if aborted is_email sc data then field_issues is_email sc data
      else field_issues is_email sc data @
             (case refinement sc of
                None \<Rightarrow> []
              | Some (p, m) \<Rightarrow> if p data then [] else [m]))"

text \<open>\<^verbatim>\<open>issues[0]?.message || fallback\<close> (also \<^verbatim>\<open>formatZodError\<close>)\<close>

fun formatZodError :: "message list \<Rightarrow> message" where
  "formatZodError [] = Msg_form_invalid"
| "formatZodError (m # ms) = m"

text \<open>The schemas declared at the top of the auth actions module.\<close>

definition loginSchema_inline :: schema where
  "loginSchema_inline =
     \<lparr>shape = [(''email'', [Email Msg_email_invalid]),
               (''password'', [Min 6 Msg_password_too_short])],
      refinement = None\<rparr>"

definition passwords_match :: "form \<Rightarrow> bool" where
  "passwords_match data = (data ''password'' = data ''confirmPassword'')"

definition registerSchema_inline :: schema where
  "registerSchema_inline =
     \<lparr>shape = [(''username'', [Min 3 Msg_username_too_short]),
               (''email'', [Email Msg_email_invalid]),
               (''password'', [Min 6 Msg_password_too_short]),
               (''confirmPassword'', [])],
      refinement = Some (passwords_match, Msg_password_mismatch)\<rparr>"

text \<open>The schemas of \<^verbatim>\<open>schemas/auth.ts\<close>.\<close>

definition loginSchema :: schema where
  "loginSchema =
     \<lparr>shape = [(''email'', [Email Msg_email_invalid, Min 1 Msg_email_empty]),
               (''password'', [Min 6 Msg_password_too_short, Max 100 Msg_password_too_long])],
      refinement = None\<rparr>"

definition registerSchema :: schema where
  "registerSchema =
     \<lparr>shape = [(''username'', [Min 3 Msg_username_too_short, Max 50 Msg_username_too_long,
                              Regex_ident Msg_username_charset]),
               (''email'', [Email Msg_email_invalid, Min 1 Msg_email_empty]),
               (''password'', [Min 6 Msg_password_too_short, Max 100 Msg_password_too_long]),
               (''confirmPassword'', [Min 1 Msg_confirm_empty])],
      refinement = Some (passwords_match, Msg_password_mismatch)\<rparr>"

subsection \<open>The login server action\<close>

record AuthState =
  error :: "message option"
  success :: bool

definition createErrorState :: "message \<Rightarrow> AuthState" where
  "createErrorState m = \<lparr>error = Some m, success = False\<rparr>"

definition createSuccessState :: AuthState where
  "createSuccessState = \<lparr>error = None, success = True\<rparr>"

record login_body =
  username :: "string option"
  password :: "string option"

text \<open>The \<^verbatim>\<open>catch\<close> clause of \<^verbatim>\<open>login\<close>.\<close>

fun login_catch :: "thrown \<Rightarrow> AuthState" where
  "login_catch (Error m) = createErrorState (Msg_login_failed m)"
| "login_catch NotAnError = createErrorState Msg_login_unknown"

text \<open>The object literal \<^verbatim>\<open>{ email, password }\<close> handed to the schema.\<close>

definition login_fields :: "form \<Rightarrow> form" where
  "login_fields formData =
     Map.empty(''email'' := formData ''email'', ''password'' := formData ''password'')"

text \<open>
  \<^verbatim>\<open>login(_prevState, formData)\<close>. The backend is the function \<open>api\<close> from the request
  body to the outcome of \<^verbatim>\<open>loginAccessToken\<close>, whose \<^verbatim>\<open>response.data\<close> is the access
  token or undefined. The result is the request scope after the action, the returned
  state and the bodies sent to the backend.

  \<open>login_with\<close> is the body shared by the two revisions of the action, which differ
  in the schema they validate against.
\<close>

definition login_with ::
  "schema \<Rightarrow> (string \<Rightarrow> bool) \<Rightarrow> (login_body \<Rightarrow> string option outcome) \<Rightarrow>
   request_ctx \<Rightarrow> form \<Rightarrow> request_ctx \<times> AuthState \<times> login_body list" where
  "login_with sc is_email api rc formData =
     (let email = formData ''email'';
          pw = formData ''password'';
          issues = safeParse is_email sc (login_fields formData)
      in if issues \<noteq> [] then (rc, createErrorState (formatZodError issues), [])
         else
           let body = \<lparr>username = email, password = pw\<rparr>
           in case api body of
                Rejects e \<Rightarrow> (rc, login_catch e, [body])
              | Resolves None \<Rightarrow> (rc, createErrorState Msg_no_token, [body])
              | Resolves (Some token) \<Rightarrow>
                  (case cookies_failure rc of
                     Some e \<Rightarrow> (rc, login_catch e, [body])
                   | None \<Rightarrow> (set_token token rc, createSuccessState, [body])))"

text \<open>\<^verbatim>\<open>login\<close> as first written, with the schema declared beside it.\<close>

definition login_inline ::
  "(string \<Rightarrow> bool) \<Rightarrow> (login_body \<Rightarrow> string option outcome) \<Rightarrow>
   request_ctx \<Rightarrow> form \<Rightarrow> request_ctx \<times> AuthState \<times> login_body list" where
  "login_inline = login_with loginSchema_inline"

text \<open>\<^verbatim>\<open>login\<close> as revised, validating through \<^verbatim>\<open>validateFormData(loginSchema, ...)\<close>.\<close>

definition login ::
  "(string \<Rightarrow> bool) \<Rightarrow> (login_body \<Rightarrow> string option outcome) \<Rightarrow>
   request_ctx \<Rightarrow> form \<Rightarrow> request_ctx \<times> AuthState \<times> login_body list" where
  "login = login_with loginSchema"

subsection \<open>The register server action\<close>

record register_body =
  reg_email :: "string option"
  reg_username :: "string option"
  reg_password :: "string option"

text \<open>\<^verbatim>\<open>message.includes(part)\<close>\<close>

definition includes_js :: "string \<Rightarrow> string \<Rightarrow> bool" where
  "includes_js s part = sublist part s"

text \<open>The \<^verbatim>\<open>catch\<close> clause of \<^verbatim>\<open>register\<close>.\<close>

fun register_catch :: "thrown \<Rightarrow> AuthState" where
  "register_catch (Error m) =
     (if includes_js m ''email'' \<and> includes_js m ''already'' then createErrorState Msg_email_taken
      else if includes_js m ''username'' \<and> includes_js m ''already'' then createErrorState Msg_username_taken
      else createErrorState (Msg_register_failed m))"
| "register_catch NotAnError = createErrorState Msg_register_unknown"

text \<open>The object literal \<^verbatim>\<open>{ username, email, password, confirmPassword }\<close> handed to
  the schema.\<close>

definition register_fields :: "form \<Rightarrow> form" where
  "register_fields formData =
     Map.empty(''username'' := formData ''username'', ''email'' := formData ''email'',
               ''password'' := formData ''password'',
               ''confirmPassword'' := formData ''confirmPassword'')"

text \<open>
  \<^verbatim>\<open>register(_prevState, formData)\<close>: the returned state and the bodies sent to the
  backend through \<^verbatim>\<open>registerUser\<close>, whose resolved value the action ignores.
  \<open>register_with\<close> is the body shared by the two revisions of the action.
\<close>

definition register_with ::
  "schema \<Rightarrow> (string \<Rightarrow> bool) \<Rightarrow> (register_body \<Rightarrow> unit outcome) \<Rightarrow>
   form \<Rightarrow> AuthState \<times> register_body list" where
  "register_with sc is_email api formData =
     (let uname = formData ''username'';
          email = formData ''email'';
          pw = formData ''password'';
          issues = safeParse is_email sc (register_fields formData)
      in if issues \<noteq> [] then (createErrorState (formatZodError issues), [])
         else
           let body = \<lparr>reg_email = email, reg_username = uname, reg_password = pw\<rparr>
           in case api body of
                Rejects e \<Rightarrow> (register_catch e, [body])
              | Resolves u \<Rightarrow> (createSuccessState, [body]))"

text \<open>\<^verbatim>\<open>register\<close> as first written, with the schema declared beside it.\<close>

definition register_inline ::
  "(string \<Rightarrow> bool) \<Rightarrow> (register_body \<Rightarrow> unit outcome) \<Rightarrow> form \<Rightarrow> AuthState \<times> register_body list" where
  "register_inline = register_with registerSchema_inline"

text \<open>\<^verbatim>\<open>register\<close> as revised, validating against \<^verbatim>\<open>registerSchema\<close> of
  \<^verbatim>\<open>schemas/auth.ts\<close>.\<close>

definition register ::
  "(string \<Rightarrow> bool) \<Rightarrow> (register_body \<Rightarrow> unit outcome) \<Rightarrow> form \<Rightarrow> AuthState \<times> register_body list" where
  "register = register_with registerSchema"

subsection \<open>The logout server action\<close>

text \<open>How a server action ends: it returns, it leaves through \<^verbatim>\<open>redirect(target)\<close>, or an
  exception escapes it.\<close>

datatype completion = Returned | Redirected string | Threw thrown

text \<open>The \<^verbatim>\<open>authorization\<close> header of the backend logout call.\<close>

definition bearer :: "string \<Rightarrow> string" where
  "bearer token = ''Bearer '' @ token"

text \<open>
  The \<^verbatim>\<open>try\<close> block shared by the logout action and the logout route: read the token
  and, when it is truthy, call the backend logout. The value is the list of
  authorization headers sent; a rejection of the call is caught and logged by both
  callers, so it leaves no other trace.
\<close>

definition call_apiLogout :: "(string \<Rightarrow> unit outcome) \<Rightarrow> request_ctx \<Rightarrow> string list" where
  "call_apiLogout api rc =
     (case get_token rc of
        None \<Rightarrow> []
      | Some token \<Rightarrow>
          if token \<noteq> [] then
            (case api (bearer token) of
               Rejects e \<Rightarrow> [bearer token]
             | Resolves u \<Rightarrow> [bearer token])
          else [])"

text \<open>
  \<^verbatim>\<open>logout()\<close>: \<^verbatim>\<open>try { ... } catch { log } finally { delete cookie; redirect("/login") }\<close>.
  The \<^verbatim>\<open>finally\<close> block awaits \<^verbatim>\<open>cookies()\<close> again, outside any \<^verbatim>\<open>try\<close>.
\<close>

definition logout :: "(string \<Rightarrow> unit outcome) \<Rightarrow> request_ctx \<Rightarrow> request_ctx \<times> completion \<times> string list" where
  "logout api rc =
     (let sent = (case cookies_failure rc of Some e \<Rightarrow> [] | None \<Rightarrow> call_apiLogout api rc)
      in case cookies_failure rc of
           Some e \<Rightarrow> (rc, Threw e, sent)
         | None \<Rightarrow> (delete_token rc, Redirected ''/login'', sent))"

text \<open>\<^verbatim>\<open>checkAuthStatus()\<close>\<close>

definition checkAuthStatus :: "request_ctx \<Rightarrow> bool" where
  "checkAuthStatus rc =
     (case cookies_failure rc of
        Some e \<Rightarrow> False
      | None \<Rightarrow> truthy (get_token rc))"

subsection \<open>The route handlers\<close>

text \<open>\<^verbatim>\<open>error instanceof Error ? error.message : fallback\<close>\<close>

fun message_of :: "message \<Rightarrow> thrown \<Rightarrow> message" where
  "message_of fallback (Error m) = Msg_thrown m"
| "message_of fallback NotAnError = fallback"

record logout_json =
  lj_status :: nat
  lj_success :: bool
  lj_message :: "message option"
  lj_error :: "message option"

text \<open>\<^verbatim>\<open>POST\<close> of \<^verbatim>\<open>app/api/auth/logout/route.ts\<close>\<close>

definition POST_logout ::
  "(string \<Rightarrow> unit outcome) \<Rightarrow> request_ctx \<Rightarrow> request_ctx \<times> logout_json \<times> string list" where
  "POST_logout api rc =
     (case cookies_failure rc of
        Some e \<Rightarrow>
          (rc, \<lparr>lj_status = 500, lj_success = False, lj_message = None,
                lj_error = Some (message_of Msg_logout_failed e)\<rparr>, [])
      | None \<Rightarrow>
          (delete_token rc,
           \<lparr>lj_status = 200, lj_success = True, lj_message = Some Msg_logout_ok, lj_error = None\<rparr>,
           call_apiLogout api rc))"

record status_json =
  sj_status :: nat
  authenticated :: bool
  sj_error :: "message option"

text \<open>\<^verbatim>\<open>GET\<close> of \<^verbatim>\<open>app/api/auth/status/route.ts\<close>\<close>

definition GET_status :: "request_ctx \<Rightarrow> status_json" where
  "GET_status rc =
     (case cookies_failure rc of
        Some e \<Rightarrow>
          \<lparr>sj_status = 500, authenticated = False, sj_error = Some (message_of Msg_status_failed e)\<rparr>
      | None \<Rightarrow>
          \<lparr>sj_status = 200, authenticated = truthy (get_token rc), sj_error = None\<rparr>)"

text \<open>\<^verbatim>\<open>response.ok\<close> of the fetch API\<close>

definition response_ok :: "nat \<Rightarrow> bool" where
  "response_ok st = (200 \<le> st \<and> st \<le> 299)"

section \<open>The client-side auth provider\<close>

text \<open>
  The state of the provider component that the claims read: the authentication flag
  (the \<^verbatim>\<open>AuthStore\<close> state, respectively the \<^verbatim>\<open>useState\<close> value), the pending flag of
  the transition, and the targets handed to \<^verbatim>\<open>router.push\<close>, oldest first.
\<close>

record client =
  isAuthenticated :: bool
  isPending :: bool
  pushed :: "string list"

text \<open>\<^verbatim>\<open>setAuth(value)\<close>, that is \<^verbatim>\<open>AuthStore.setState\<close>: the state is replaced when it
  differs (and the listeners run), and kept otherwise.\<close>

definition setAuth :: "bool \<Rightarrow> client \<Rightarrow> client" where
  "setAuth v c = (if isAuthenticated c \<noteq> v then c\<lparr>isAuthenticated := v\<rparr> else c)"

definition router_push :: "string \<Rightarrow> client \<Rightarrow> client" where
  "router_push target c = c\<lparr>pushed := pushed c @ [target]\<rparr>"

subsection \<open>Logout from the provider\<close>

text \<open>What \<^verbatim>\<open>await fetch("/api/auth/logout", ...)\<close> gives: the promise rejects, or it
  resolves with a response whose \<^verbatim>\<open>ok\<close> flag is the argument.\<close>

datatype fetch_result = FetchRejects | FetchResolves bool

text \<open>
  \<^verbatim>\<open>logout\<close> of \<^verbatim>\<open>contexts/auth.context.tsx\<close>. Inside the transition the optimistic
  flag shows \<open>False\<close>; once the transition is over the component shows the store state
  again, which is the \<open>isAuthenticated\<close> of the result. In the branch of a response
  that is not ok, \<^verbatim>\<open>response.json()\<close> runs after \<^verbatim>\<open>setAuth(true)\<close>, and the
  \<^verbatim>\<open>catch\<close> clause it may reach calls \<^verbatim>\<open>setAuth(true)\<close> once more.
\<close>

definition AuthProvider_logout :: "fetch_result \<Rightarrow> client \<Rightarrow> client" where
  "AuthProvider_logout r c =
     (if isPending c then c
      else case r of
             FetchResolves ok \<Rightarrow>
               if ok then router_push ''/login'' (setAuth False c)
               else setAuth True c
           | FetchRejects \<Rightarrow> setAuth True c)"

subsection \<open>Route guarding\<close>

definition publicRoutes :: "string list" where
  "publicRoutes = [''/login'', ''/register'', ''/'']"

text \<open>\<^verbatim>\<open>publicRoutes.some(route => pathname === route || pathname.startsWith(`${route}/`))\<close>\<close>

definition isPublicRoute :: "string \<Rightarrow> bool" where
  "isPublicRoute pathname =
     list_ex (\<lambda>route. pathname = route \<or> prefix (route @ ''/'') pathname) publicRoutes"

text \<open>The guarding effect, run whenever the flag or the pathname changes.\<close>

definition guard_effect :: "string \<Rightarrow> client \<Rightarrow> client" where
  "guard_effect pathname c =
     (if \<not> isAuthenticated c \<and> \<not> isPublicRoute pathname then router_push ''/login'' c else c)"

text \<open>The guarding effect of the first revision of \<^verbatim>\<open>components/auth-provider.tsx\<close>:
  two routes, compared with \<^verbatim>\<open>includes\<close>.\<close>

definition publicRoutes_first :: "string list" where
  "publicRoutes_first = [''/login'', ''/register'']"

definition guard_effect_first :: "string \<Rightarrow> client \<Rightarrow> client" where
  "guard_effect_first pathname c =
     (if \<not> isAuthenticated c \<and> pathname \<notin> set publicRoutes_first
      then router_push ''/login'' c else c)"

subsection \<open>Periodic reconciliation\<close>

text \<open>
  One status check of the reconciliation effect. The callback closes over the flag and
  the pathname of the render that scheduled it (\<open>seen_auth\<close>, \<open>seen_path\<close>);
  \<open>periodic\<close> tells the interval callback from the check made when the effect starts,
  which does not redirect. \<open>result\<close> is what \<^verbatim>\<open>fetch("/api/auth/status")\<close> gave:
  a rejection, or \<^verbatim>\<open>res.ok\<close> and \<^verbatim>\<open>data.authenticated\<close>. With the server action
  \<^verbatim>\<open>checkAuthStatus\<close> of the context the first component is always \<open>True\<close>.

  \<open>issued\<close> is the time at which the check was started. No statement of the source
  reads such a time; the field only orders the checks in the statements below.
\<close>

datatype status_result = StatusRejects | StatusResolves bool bool

record status_check =
  issued :: nat
  seen_auth :: bool
  seen_path :: string
  periodic :: bool
  result :: status_result

text \<open>The continuation that runs when the response of a check arrives.\<close>

definition on_status :: "status_check \<Rightarrow> client \<Rightarrow> client" where
  "on_status k c =
     (case result k of
        StatusRejects \<Rightarrow> c
      | StatusResolves ok a \<Rightarrow>
          if ok \<and> a \<noteq> seen_auth k then
            (let c' = c\<lparr>isAuthenticated := a\<rparr>
             in if periodic k \<and> \<not> a \<and> \<not> isPublicRoute (seen_path k)
                then router_push ''/login'' c' else c')
          else c)"

text \<open>The responses of several checks, handled in the order in which they arrive.\<close>

definition deliver :: "status_check list \<Rightarrow> client \<Rightarrow> client" where
  "deliver ks c = fold on_status ks c"

section \<open>The backend authentication core\<close>

text \<open>
  The Python backend (Token Codec, Revocation Store, Auth Service) is not among the
  sources embedded above; its definitions below follow the specification, sections 3
  and 4, and each says so. Times and
  durations are natural numbers (seconds). The signing primitive is a parameter
  \<open>sign\<close>, from the key and the signed text to a tag.
\<close>

text \<open>Modelled from the spec: the text of a number inside a token (the Token Codec's
  serialisation is missing), decimal digits.\<close>

fun digits :: "nat \<Rightarrow> string" where
  "digits n =
     (if n < 10 then [char_of (48 + n)]
      else digits (n div 10) @ [char_of (48 + n mod 10)])"

text \<open>Modelled from the spec: the characters of a number inside a token (the Token
  Codec's parser is missing).\<close>

definition is_digit :: "char \<Rightarrow> bool" where
  "is_digit c = (48 \<le> (of_char c :: nat) \<and> (of_char c :: nat) \<le> 57)"

text \<open>Modelled from the spec: reading a number back (the Token Codec's parser is
  missing); \<open>None\<close> when the text is empty or holds anything but digits.\<close>

definition parse_nat :: "string \<Rightarrow> nat option" where
  "parse_nat s =
     (if s \<noteq> [] \<and> list_all is_digit s
      then Some (fold (\<lambda>c acc. 10 * acc + (of_char c - 48)) s 0)
      else None)"

text \<open>Modelled from the spec: cutting a token at its separators (the Token Codec's
  parser is missing).\<close>

fun split_on :: "char \<Rightarrow> string \<Rightarrow> string list" where
  "split_on d [] = [[]]"
| "split_on d (c # cs) =
     (if c = d then [] # split_on d cs
      else (case split_on d cs of
              [] \<Rightarrow> [[c]]
            | x # xs \<Rightarrow> (c # x) # xs))"

text \<open>Modelled from the spec: the content of a token (section 3: subject, issued-at,
  expiry, token-type marker); the backend's token payload is missing.\<close>

record claims =
  subject :: nat
  issued_at :: nat
  expiry :: nat
  token_type :: string

text \<open>Modelled from the spec: the signed text of a token (the Token Codec's encoder is
  missing).\<close>

definition payload_text :: "claims \<Rightarrow> string" where
  "payload_text cl =
     digits (subject cl) @ ''.'' @ digits (issued_at cl) @ ''.'' @ digits (expiry cl)
       @ ''.'' @ token_type cl"

text \<open>Modelled from the spec: Token Codec \<open>issue(subject, ttl)\<close> (missing): a
  token embedding the subject and the absolute expiry \<open>now + ttl\<close>, signed with the
  process-wide key.\<close>

definition issue :: "(string \<Rightarrow> string \<Rightarrow> nat) \<Rightarrow> string \<Rightarrow> nat \<Rightarrow> nat \<Rightarrow> nat \<Rightarrow> string" where
  "issue sign key now sub ttl =
     (let p = payload_text \<lparr>subject = sub, issued_at = now, expiry = now + ttl,
                            token_type = ''access''\<rparr>
      in p @ ''.'' @ digits (sign key p))"

text \<open>Modelled from the spec: the failures of Token Codec \<open>verify\<close> (missing).\<close>

datatype codec_failure = Malformed | InvalidSignature | Expired

text \<open>Modelled from the spec: Token Codec \<open>verify(token)\<close> (missing): \<open>Malformed\<close>
  if the token cannot be parsed, \<open>InvalidSignature\<close> if the signature does not match,
  \<open>Expired\<close> if \<open>now > expiry\<close>; it does not consult the Revocation Store.\<close>

definition verify :: "(string \<Rightarrow> string \<Rightarrow> nat) \<Rightarrow> string \<Rightarrow> nat \<Rightarrow> string \<Rightarrow> codec_failure + nat" where
  "verify sign key now token =
     (case split_on CHR ''.'' token of
        [s, i, e, ty, sg] \<Rightarrow>
          (case (parse_nat s, parse_nat i, parse_nat e, parse_nat sg) of
             (Some sub, Some iat, Some ex, Some tag) \<Rightarrow>
               if ty \<noteq> ''access'' then Inl Malformed
               else if tag \<noteq> sign key (s @ ''.'' @ i @ ''.'' @ e @ ''.'' @ ty)
                 then Inl InvalidSignature
               else if now > ex then Inl Expired
               else Inr sub
           | _ \<Rightarrow> Inl Malformed)
      | _ \<Rightarrow> Inl Malformed)"

text \<open>Modelled from the spec: the Revocation Store (missing), a mapping from the token
  identifier, here the full token string, to the expiry recorded at revocation.\<close>

type_synonym revocations = "string \<rightharpoonup> nat"

text \<open>Modelled from the spec: Revocation Store \<open>revoke(tokenId, expiry)\<close> (missing).\<close>

definition revoke :: "revocations \<Rightarrow> string \<Rightarrow> nat \<Rightarrow> revocations" where
  "revoke store tokenId ex = store(tokenId \<mapsto> ex)"

text \<open>Modelled from the spec: Revocation Store \<open>isRevoked(tokenId)\<close> (missing), a
  membership check.\<close>

definition isRevoked :: "revocations \<Rightarrow> string \<Rightarrow> bool" where
  "isRevoked store tokenId = (store tokenId \<noteq> None)"

text \<open>Modelled from the spec: the failure of Auth Service \<open>authenticate\<close> (missing).\<close>

datatype auth_failure = Unauthenticated

text \<open>Modelled from the spec: Auth Service \<open>authenticate(token)\<close> (missing): verifies
  via the Codec, then checks \<open>isRevoked\<close>; if either fails, \<open>Unauthenticated\<close>. The user
  it resolves is identified by the subject.\<close>

definition authenticate ::
  "(string \<Rightarrow> string \<Rightarrow> nat) \<Rightarrow> string \<Rightarrow> nat \<Rightarrow> revocations \<Rightarrow> string \<Rightarrow> auth_failure + nat" where
  "authenticate sign key now store token =
     (case verify sign key now token of
        Inl f \<Rightarrow> Inl Unauthenticated
      | Inr sub \<Rightarrow> if isRevoked store token then Inl Unauthenticated else Inr sub)"

section \<open>Concrete inputs\<close>

text \<open>Inputs on which the definitions above are run in the statements below: an e-mail
  test that looks for the at sign, a request scope with or without the cookie, a
  provider state, two forms, a checksum in place of the signing primitive, and two
  status checks.\<close>

definition sample_is_email :: "string \<Rightarrow> bool" where
  "sample_is_email s = (CHR ''@'' \<in> set s)"

definition sample_rc :: "string option \<Rightarrow> request_ctx" where
  "sample_rc t =
     \<lparr>jar = (case t of
               None \<Rightarrow> Map.empty
             | Some v \<Rightarrow> [''auth-token'' \<mapsto> auth_cookie ''production'' v]),
      cookies_failure = None, node_env = ''production''\<rparr>"

definition sample_client :: "bool \<Rightarrow> client" where
  "sample_client a = \<lparr>isAuthenticated = a, isPending = False, pushed = []\<rparr>"

definition sample_login_form :: form where
  "sample_login_form = [''email'' \<mapsto> ''alice@x.com'', ''password'' \<mapsto> ''Passw0rd!'']"

definition sample_register_form :: "string \<Rightarrow> string \<Rightarrow> form" where
  "sample_register_form u c =
     [''username'' \<mapsto> u, ''email'' \<mapsto> ''alice@x.com'', ''password'' \<mapsto> ''Passw0rd!'',
      ''confirmPassword'' \<mapsto> c]"

definition checksum_sign :: "string \<Rightarrow> string \<Rightarrow> nat" where
  "checksum_sign key txt = sum_list (map of_char (key @ txt))"

definition sample_token :: string where
  "sample_token = issue checksum_sign ''k'' 100 7 3600"

text \<open>Two checks scheduled by the same render of a signed-out provider on the login
  page: the check made when the effect starts, answered while the cookie was present,
  and a later interval check, answered after the cookie was removed.\<close>

definition stale_check :: status_check where
  "stale_check =
     \<lparr>issued = 1, seen_auth = False, seen_path = ''/login'', periodic = False,
      result = StatusResolves True True\<rparr>"

definition newer_check :: status_check where
  "newer_check =
     \<lparr>issued = 2, seen_auth = False, seen_path = ''/login'', periodic = True,
      result = StatusResolves True False\<rparr>"

declare digits.simps [simp del]

section \<open>The login action and its cookie\<close>

lemma login_catch_fails: "\<not> success (login_catch e) \<and> error (login_catch e) \<noteq> None"
  by (cases e) (simp_all add: createErrorState_def)

lemma login_with_cases:
  assumes "login_with sc is_email api rc fd = (rc', st, sent)"
  shows "(success st \<and> error st = None \<and> cookies_failure rc = None \<and>
            safeParse is_email sc (login_fields fd) = [] \<and>
            (\<exists>token. api \<lparr>username = fd ''email'', password = fd ''password''\<rparr> = Resolves (Some token)
                      \<and> rc' = set_token token rc))
         \<or> (\<not> success st \<and> error st \<noteq> None \<and> rc' = rc)"
  using assms login_catch_fails
  by (auto simp: login_with_def Let_def createErrorState_def createSuccessState_def
           split: if_splits outcome.splits option.splits)

lemma login_with_sent:
  assumes "login_with sc is_email api rc fd = (rc', st, sent)"
  shows "sent = [] \<longleftrightarrow> safeParse is_email sc (login_fields fd) \<noteq> []"
  using assms
  by (auto simp: login_with_def Let_def split: if_splits outcome.splits option.splits)

lemma jar_set_token:
  "jar (set_token token rc) ''auth-token'' =
     Some \<lparr>cvalue = token, httpOnly = True, secure = (node_env rc = ''production''),
           sameSite = Lax, maxAge = 604800, path = ''/''\<rparr>"
  by (simp add: set_token_def auth_cookie_def)

lemma sample_login_parses:
  "safeParse sample_is_email loginSchema (login_fields sample_login_form) = []"
  "safeParse sample_is_email loginSchema_inline (login_fields sample_login_form) = []"
  by (simp_all add: safeParse_def aborted_def field_issues_def loginSchema_def
      loginSchema_inline_def login_fields_def sample_login_form_def sample_is_email_def)

lemma sample_login_no_token:
  "login sample_is_email (\<lambda>b. Resolves None) (sample_rc None) sample_login_form =
     (sample_rc None, createErrorState Msg_no_token,
      [\<lparr>username = Some ''alice@x.com'', password = Some ''Passw0rd!''\<rparr>])"
  by (simp add: login_def login_with_def sample_login_parses Let_def sample_rc_def)
     (simp add: sample_login_form_def)

lemma login_schemas_accept:
  assumes "fd ''email'' = Some e" and "is_email e" and "fd ''password'' = Some p"
    and "6 \<le> length p"
  shows "safeParse is_email loginSchema_inline (login_fields fd) = []"
    and "1 \<le> length e \<Longrightarrow> length p \<le> 100 \<Longrightarrow>
           safeParse is_email loginSchema (login_fields fd) = []"
  using assms
  by (simp_all add: safeParse_def aborted_def field_issues_def loginSchema_def
      loginSchema_inline_def login_fields_def)

lemma login_with_stores:
  assumes "safeParse is_email sc (login_fields fd) = []"
    and "api \<lparr>username = fd ''email'', password = fd ''password''\<rparr> = Resolves (Some token)"
    and "cookies_failure rc = None"
  shows "login_with sc is_email api rc fd =
           (set_token token rc, \<lparr>error = None, success = True\<rparr>,
            [\<lparr>username = fd ''email'', password = fd ''password''\<rparr>])"
  using assms by (simp add: login_with_def Let_def createSuccessState_def)

text \<open>
  C6. Every successful login stores the token returned by the backend in the cookie
  \<^verbatim>\<open>auth-token\<close> with exactly these attributes: HttpOnly set, Secure exactly when
  \<^verbatim>\<open>NODE_ENV\<close> is \<^verbatim>\<open>production\<close>, SameSite Lax, path \<^verbatim>\<open>/\<close>, and a max-age of 604800
  seconds (seven days). In one direction: for a form whose e-mail and password pass the
  schema, a backend call that resolves with a token and a readable cookie store, the
  action returns success, has sent that one request, and leaves the request scope with
  the cookie set to that token with these attributes. In the other direction: whenever
  the action returns success, the backend call resolved with a token and the cookie
  holds it with these attributes. Both hold for both revisions of the action; the
  revised one also bounds the password by 100 characters and asks for a non-empty
  e-mail.
\<close>

theorem login_cookie_attributes:
  "(fd ''email'' = Some e \<and> is_email e \<and> fd ''password'' = Some p \<and> 6 \<le> length p
      \<and> api \<lparr>username = Some e, password = Some p\<rparr> = Resolves (Some token)
      \<and> cookies_failure rc = None \<longrightarrow>
        login_inline is_email api rc fd =
          (set_token token rc, \<lparr>error = None, success = True\<rparr>,
           [\<lparr>username = Some e, password = Some p\<rparr>])
        \<and> (1 \<le> length e \<and> length p \<le> 100 \<longrightarrow>
             login is_email api rc fd =
               (set_token token rc, \<lparr>error = None, success = True\<rparr>,
                [\<lparr>username = Some e, password = Some p\<rparr>]))
        \<and> jar (set_token token rc) ''auth-token'' =
             Some \<lparr>cvalue = token, httpOnly = True, secure = (node_env rc = ''production''),
                   sameSite = Lax, maxAge = 604800, path = ''/''\<rparr>
        \<and> (\<forall>name. name \<noteq> ''auth-token'' \<longrightarrow> jar (set_token token rc) name = jar rc name))
   \<and> ((login_inline is_email api rc fd = (rc', st, sent)
         \<or> login is_email api rc fd = (rc', st, sent))
        \<and> success st \<longrightarrow>
        (\<exists>t. api \<lparr>username = fd ''email'', password = fd ''password''\<rparr> = Resolves (Some t) \<and>
           jar rc' ''auth-token'' =
             Some \<lparr>cvalue = t, httpOnly = True, secure = (node_env rc = ''production''),
                   sameSite = Lax, maxAge = 604800, path = ''/''\<rparr>))"
proof (intro conjI impI)
  assume valid: "fd ''email'' = Some e \<and> is_email e \<and> fd ''password'' = Some p \<and> 6 \<le> length p
      \<and> api \<lparr>username = Some e, password = Some p\<rparr> = Resolves (Some token)
      \<and> cookies_failure rc = None"
  then have call: "api \<lparr>username = fd ''email'', password = fd ''password''\<rparr> = Resolves (Some token)"
    by simp
  from valid have ok1: "safeParse is_email loginSchema_inline (login_fields fd) = []"
    using login_schemas_accept(1) by blast
  from login_with_stores [where api = api and fd = fd and token = token, OF ok1 call] valid
  show "login_inline is_email api rc fd =
          (set_token token rc, \<lparr>error = None, success = True\<rparr>,
           [\<lparr>username = Some e, password = Some p\<rparr>])"
    by (simp add: login_inline_def)
  show "jar (set_token token rc) ''auth-token'' =
             Some \<lparr>cvalue = token, httpOnly = True, secure = (node_env rc = ''production''),
                   sameSite = Lax, maxAge = 604800, path = ''/''\<rparr>"
    by (rule jar_set_token)
  show "\<forall>name. name \<noteq> ''auth-token'' \<longrightarrow> jar (set_token token rc) name = jar rc name"
    by (simp add: set_token_def)
  assume bounds: "1 \<le> length e \<and> length p \<le> 100"
  with valid have ok2: "safeParse is_email loginSchema (login_fields fd) = []"
    using login_schemas_accept(2) by blast
  from login_with_stores [where api = api and fd = fd and token = token, OF ok2 call] valid
  show "login is_email api rc fd =
          (set_token token rc, \<lparr>error = None, success = True\<rparr>,
           [\<lparr>username = Some e, password = Some p\<rparr>])"
    by (simp add: login_def)
next
  assume run: "(login_inline is_email api rc fd = (rc', st, sent)
         \<or> login is_email api rc fd = (rc', st, sent)) \<and> success st"
  then obtain sc where w: "login_with sc is_email api rc fd = (rc', st, sent)"
    unfolding login_inline_def login_def by blast
  from login_with_cases [OF w] run
  obtain t
    where "api \<lparr>username = fd ''email'', password = fd ''password''\<rparr> = Resolves (Some t)"
      and "rc' = set_token t rc"
    by blast
  then show "\<exists>t. api \<lparr>username = fd ''email'', password = fd ''password''\<rparr> = Resolves (Some t) \<and>
           jar rc' ''auth-token'' =
             Some \<lparr>cvalue = t, httpOnly = True, secure = (node_env rc = ''production''),
                   sameSite = Lax, maxAge = 604800, path = ''/''\<rparr>"
    using jar_set_token by blast
qed

theorem login_cookie_attributes_witness:
  "sample_login_form ''email'' = Some ''alice@x.com'' \<and> sample_is_email ''alice@x.com''
   \<and> sample_login_form ''password'' = Some ''Passw0rd!'' \<and> 6 \<le> length ''Passw0rd!''
   \<and> 1 \<le> length ''alice@x.com'' \<and> length ''Passw0rd!'' \<le> 100
   \<and> cookies_failure (sample_rc None) = None
   \<and> login_inline sample_is_email (\<lambda>b. Resolves (Some ''T'')) (sample_rc None) sample_login_form =
       (set_token ''T'' (sample_rc None), \<lparr>error = None, success = True\<rparr>,
        [\<lparr>username = Some ''alice@x.com'', password = Some ''Passw0rd!''\<rparr>])
   \<and> login sample_is_email (\<lambda>b. Resolves (Some ''T'')) (sample_rc None) sample_login_form =
       (set_token ''T'' (sample_rc None), \<lparr>error = None, success = True\<rparr>,
        [\<lparr>username = Some ''alice@x.com'', password = Some ''Passw0rd!''\<rparr>])
   \<and> jar (fst (login_inline sample_is_email (\<lambda>b. Resolves (Some ''T'')) (sample_rc None)
                   sample_login_form)) ''auth-token'' =
        Some \<lparr>cvalue = ''T'', httpOnly = True, secure = True, sameSite = Lax,
              maxAge = 604800, path = ''/''\<rparr>"
proof -
  have inputs: "sample_login_form ''email'' = Some ''alice@x.com''"
    "sample_is_email ''alice@x.com''"
    "sample_login_form ''password'' = Some ''Passw0rd!''"
    "cookies_failure (sample_rc None) = None"
    "node_env (sample_rc None) = ''production''"
    by (simp_all add: sample_login_form_def sample_is_email_def sample_rc_def)
  from login_cookie_attributes [where fd = sample_login_form and e = "''alice@x.com''"
      and is_email = sample_is_email and p = "''Passw0rd!''"
      and api = "\<lambda>b. Resolves (Some ''T'')" and token = "''T''" and rc = "sample_rc None"
      and rc' = "set_token ''T'' (sample_rc None)"
      and st = "\<lparr>error = None, success = True\<rparr>"
      and sent = "[\<lparr>username = Some ''alice@x.com'', password = Some ''Passw0rd!''\<rparr>]"]
  show ?thesis using inputs by simp
qed

text \<open>
  C10. Whenever the login action returns an error state, the request scope, and with it
  the cookie store, is the one it started from: nothing is sent to the backend when
  validation fails, and a rejected call or a response without data both give an error
  state. The cookie is set only where the backend returned a token, and that is the
  only path that returns success.
\<close>

theorem login_failure_leaves_cookies:
  assumes "login_inline is_email api rc fd = (rc', st, sent)
           \<or> login is_email api rc fd = (rc', st, sent)"
  shows "(\<not> success st \<longrightarrow> error st \<noteq> None \<and> rc' = rc) \<and>
         (sent = [] \<longrightarrow> \<not> success st) \<and>
         (\<forall>e. api \<lparr>username = fd ''email'', password = fd ''password''\<rparr> = Rejects e
                \<longrightarrow> \<not> success st) \<and>
         (api \<lparr>username = fd ''email'', password = fd ''password''\<rparr> = Resolves None
                \<longrightarrow> \<not> success st) \<and>
         (success st \<longrightarrow> error st = None \<and>
            (\<exists>token. api \<lparr>username = fd ''email'', password = fd ''password''\<rparr> = Resolves (Some token)
                      \<and> rc' = set_token token rc))"
proof -
  from assms obtain sc where run: "login_with sc is_email api rc fd = (rc', st, sent)"
    unfolding login_inline_def login_def by blast
  from login_with_cases [OF run] login_with_sent [OF run] show ?thesis by auto
qed

theorem login_failure_leaves_cookies_witness:
  "login sample_is_email (\<lambda>b. Resolves None) (sample_rc None) sample_login_form =
     (sample_rc None, createErrorState Msg_no_token,
      [\<lparr>username = Some ''alice@x.com'', password = Some ''Passw0rd!''\<rparr>])
   \<and> \<not> success (createErrorState Msg_no_token)
   \<and> error (createErrorState Msg_no_token) \<noteq> None"
  using login_failure_leaves_cookies [OF disjI2 [OF sample_login_no_token]] sample_login_no_token
  by (simp add: createErrorState_def)

section \<open>Registration with differing passwords\<close>

lemma parse_string_aborted:
  "snd (parse_string is_email cs v) \<Longrightarrow> fst (parse_string is_email cs v) \<noteq> []"
  by (cases v) simp_all

lemma aborted_has_issue:
  "aborted is_email sc data \<Longrightarrow> field_issues is_email sc data \<noteq> []"
  unfolding aborted_def field_issues_def list_ex_iff
  using parse_string_aborted by fastforce

lemma safeParse_refined:
  assumes "refinement sc = Some (p, m)" and "\<not> p data"
  shows "safeParse is_email sc data \<noteq> []"
    and "formatZodError (safeParse is_email sc data)
           = formatZodError (field_issues is_email sc data @ [m])"
proof -
  show "safeParse is_email sc data \<noteq> []"
    using assms aborted_has_issue [of is_email sc data] by (simp add: safeParse_def)
  show "formatZodError (safeParse is_email sc data)
          = formatZodError (field_issues is_email sc data @ [m])"
  proof (cases "aborted is_email sc data")
    case True
    then obtain x xs where "field_issues is_email sc data = x # xs"
      using aborted_has_issue [of is_email sc data]
      by (cases "field_issues is_email sc data") auto
    with True show ?thesis by (simp add: safeParse_def)
  next
    case False
    with assms show ?thesis by (simp add: safeParse_def)
  qed
qed

lemma passwords_match_fields:
  "passwords_match (register_fields fd) \<longleftrightarrow> fd ''password'' = fd ''confirmPassword''"
  by (simp add: passwords_match_def register_fields_def)

lemma register_with_mismatch:
  assumes "refinement sc = Some (passwords_match, m)"
    and "fd ''password'' \<noteq> fd ''confirmPassword''"
  shows "register_with sc is_email api fd =
           (createErrorState (formatZodError (field_issues is_email sc (register_fields fd) @ [m])), [])"
proof -
  have np: "\<not> passwords_match (register_fields fd)"
    using assms(2) by (simp add: passwords_match_fields)
  show ?thesis
    using safeParse_refined [OF assms(1) np, of is_email]
    by (simp add: register_with_def Let_def)
qed

lemma registerSchema_refinement:
  "refinement registerSchema = Some (passwords_match, Msg_password_mismatch)"
  "refinement registerSchema_inline = Some (passwords_match, Msg_password_mismatch)"
  by (simp_all add: registerSchema_def registerSchema_inline_def)

lemma sample_field_issues:
  "field_issues sample_is_email registerSchema
     (register_fields (sample_register_form ''alice'' ''other'')) = []"
  "field_issues sample_is_email registerSchema
     (register_fields (sample_register_form ''al'' ''other'')) = [Msg_username_too_short]"
  by (simp_all add: field_issues_def registerSchema_def register_fields_def
      sample_register_form_def sample_is_email_def ident_char_def)

lemma sample_register_differs:
  "sample_register_form u ''other'' ''password'' \<noteq> sample_register_form u ''other'' ''confirmPassword''"
  by (simp add: sample_register_form_def)

text \<open>
  C7, as the claim states it, fails: a form whose two passwords differ and whose username
  has two characters is rejected with the message for a short username, not with the
  message for differing passwords. The backend in this run accepts every request.
\<close>

theorem register_mismatch_message_counterexample:
  "sample_register_form ''al'' ''other'' ''password''
     \<noteq> sample_register_form ''al'' ''other'' ''confirmPassword''
   \<and> error (fst (register sample_is_email (\<lambda>b. Resolves ()) (sample_register_form ''al'' ''other'')))
        = Some Msg_username_too_short
   \<and> error (fst (register sample_is_email (\<lambda>b. Resolves ()) (sample_register_form ''al'' ''other'')))
        \<noteq> Some Msg_password_mismatch"
  using register_with_mismatch [where is_email = sample_is_email and api = "\<lambda>b. Resolves ()",
      OF registerSchema_refinement(1) sample_register_differs [of "''al''"]]
    sample_register_differs [of "''al''"]
  by (simp add: register_def sample_field_issues createErrorState_def)

text \<open>
  C7, amended. For every registration form whose password and confirmation differ, the
  register action (either revision) returns an error state and sends no request to the
  backend. The message of the error state is that of the first validation issue: the
  first issue that a field reports for its own checks, in the order username, email,
  password, confirmation, and the message for differing passwords when no field
  reports one.
\<close>

theorem register_mismatch_rejected:
  assumes "fd ''password'' \<noteq> fd ''confirmPassword''"
  shows "register is_email api fd =
           (\<lparr>error = Some (formatZodError
                             (field_issues is_email registerSchema (register_fields fd)
                              @ [Msg_password_mismatch])),
             success = False\<rparr>, [])
       \<and> register_inline is_email api fd =
           (\<lparr>error = Some (formatZodError
                             (field_issues is_email registerSchema_inline (register_fields fd)
                              @ [Msg_password_mismatch])),
             success = False\<rparr>, [])"
  using assms
  by (simp add: register_def register_inline_def register_with_mismatch
      registerSchema_refinement createErrorState_def)

theorem register_mismatch_rejected_witness:
  "sample_register_form ''alice'' ''other'' ''password''
     \<noteq> sample_register_form ''alice'' ''other'' ''confirmPassword''
   \<and> register sample_is_email (\<lambda>b. Resolves ()) (sample_register_form ''alice'' ''other'')
        = (\<lparr>error = Some Msg_password_mismatch, success = False\<rparr>, [])"
  using register_mismatch_rejected [where is_email = sample_is_email and api = "\<lambda>b. Resolves ()",
      OF sample_register_differs [of "''alice''"]]
    sample_register_differs [of "''alice''"]
  by (simp add: sample_field_issues)

section \<open>The backend core: issue, verify, revoke, authenticate\<close>

lemma of_char_digit: "d < 10 \<Longrightarrow> (of_char (char_of (48 + d) :: char) :: nat) = 48 + d"
  by simp

lemma digits_nonempty: "digits n \<noteq> []"
  by (subst digits.simps) simp

lemma digits_all_digit: "list_all is_digit (digits n)"
proof (induction n rule: digits.induct)
  case (1 n)
  show ?case
  proof (cases "n < 10")
    case True
    then show ?thesis by (subst digits.simps) (simp add: is_digit_def)
  next
    case False
    have "n mod 10 < 10" by simp
    then have "is_digit (char_of (48 + n mod 10))"
      unfolding is_digit_def by (simp only: of_char_digit) simp
    with False 1 show ?thesis by (subst digits.simps) simp
  qed
qed

lemma digits_value: "fold (\<lambda>c acc. 10 * acc + (of_char c - 48)) (digits n) 0 = n"
proof (induction n rule: digits.induct)
  case (1 n)
  show ?case
  proof (cases "n < 10")
    case True
    then show ?thesis by (subst digits.simps) simp
  next
    case False
    have "n mod 10 < 10" by simp
    then have "(of_char (char_of (48 + n mod 10) :: char) :: nat) = 48 + n mod 10"
      by (rule of_char_digit)
    with False 1 show ?thesis by (subst digits.simps) simp
  qed
qed

lemma parse_nat_digits: "parse_nat (digits n) = Some n"
  by (simp add: parse_nat_def digits_nonempty digits_all_digit digits_value)

lemma digits_no_dot: "CHR ''.'' \<notin> set (digits n)"
proof
  assume "CHR ''.'' \<in> set (digits n)"
  with digits_all_digit [of n] have "is_digit CHR ''.''" by (simp add: list_all_iff)
  then show False by (simp add: is_digit_def)
qed

lemma split_on_single: "d \<notin> set a \<Longrightarrow> split_on d a = [a]"
  by (induction a) auto

lemma split_on_append: "d \<notin> set a \<Longrightarrow> split_on d (a @ d # r) = a # split_on d r"
  by (induction a) auto

lemma split_on_digits:
  "split_on CHR ''.'' (digits n @ CHR ''.'' # r) = digits n # split_on CHR ''.'' r"
  "split_on CHR ''.'' (digits n) = [digits n]"
  using split_on_append [OF digits_no_dot] split_on_single [OF digits_no_dot] by auto

lemma split_on_issue:
  "split_on CHR ''.'' (issue sign key now sub ttl) =
     [digits sub, digits now, digits (now + ttl), ''access'',
      digits (sign key (payload_text \<lparr>subject = sub, issued_at = now, expiry = now + ttl,
                                      token_type = ''access''\<rparr>))]"
  by (simp add: issue_def payload_text_def Let_def split_on_digits)

lemma verify_issue:
  "verify sign key t (issue sign key now sub ttl) = (if now + ttl < t then Inl Expired else Inr sub)"
  by (simp add: verify_def split_on_issue parse_nat_digits payload_text_def)

lemma issue_nonempty: "issue sign key now sub ttl \<noteq> []"
  by (simp add: issue_def Let_def payload_text_def digits_nonempty)

lemma authenticate_revoked:
  "authenticate sign key t (revoke store token ex) token = Inl Unauthenticated"
  by (simp add: authenticate_def revoke_def isRevoked_def split: sum.splits)

text \<open>
  C8. For every subject and ttl, verify applied to the token that issue has just built,
  under the same key and at the same time, returns the subject; so it does at every
  time up to the expiry \<open>now + ttl\<close>.
\<close>

theorem verify_after_issue:
  "verify sign key now (issue sign key now sub ttl) = Inr sub
   \<and> (t \<le> now + ttl \<longrightarrow> verify sign key t (issue sign key now sub ttl) = Inr sub)"
  by (simp add: verify_issue)

theorem verify_after_issue_witness:
  "(3000::nat) \<le> 100 + 3600
   \<and> verify checksum_sign ''k'' 100 sample_token = Inr 7
   \<and> verify checksum_sign ''k'' 3000 sample_token = Inr 7"
  using verify_after_issue [of checksum_sign "''k''" 100 7 3600 3000]
  by (simp add: sample_token_def)

text \<open>
  C9. For every token, authenticate after revoke on that token fails with
  \<open>Unauthenticated\<close>, whatever the store held before and whatever expiry is recorded.
  For a token issued with a ttl this holds up to its expiry, where verify alone still
  returns the subject and authenticate does so too as long as the token is not revoked.
\<close>

theorem revoked_token_unauthenticated:
  "authenticate sign key t (revoke store token ex) token = Inl Unauthenticated
   \<and> (t \<le> now + ttl \<longrightarrow>
        verify sign key t (issue sign key now sub ttl) = Inr sub
        \<and> (\<not> isRevoked store (issue sign key now sub ttl) \<longrightarrow>
             authenticate sign key t store (issue sign key now sub ttl) = Inr sub)
        \<and> authenticate sign key t
             (revoke store (issue sign key now sub ttl) (now + ttl))
             (issue sign key now sub ttl) = Inl Unauthenticated)"
  by (simp add: authenticate_revoked verify_issue) (simp add: authenticate_def verify_issue)

theorem revoked_token_unauthenticated_witness:
  "(200::nat) \<le> 100 + 3600
   \<and> \<not> isRevoked Map.empty sample_token
   \<and> verify checksum_sign ''k'' 200 sample_token = Inr 7
   \<and> authenticate checksum_sign ''k'' 200 Map.empty sample_token = Inr 7
   \<and> authenticate checksum_sign ''k'' 200 (revoke Map.empty sample_token 3700) sample_token
        = Inl Unauthenticated"
  using revoked_token_unauthenticated [of checksum_sign "''k''" 200 Map.empty sample_token 3700
      100 3600 7]
  by (simp add: sample_token_def isRevoked_def)

section \<open>Logout\<close>

lemma get_token_deleted: "get_token (delete_token rc) = None"
  by (simp add: get_token_def delete_token_def)

lemma cookies_failure_deleted: "cookies_failure (delete_token rc) = cookies_failure rc"
  by (simp add: delete_token_def)

lemma call_apiLogout_no_token: "get_token rc = None \<Longrightarrow> call_apiLogout api rc = []"
  by (simp add: call_apiLogout_def)

lemma delete_token_idem: "delete_token (delete_token rc) = delete_token rc"
  by (simp add: delete_token_def)

lemma sample_rc_readable: "cookies_failure (sample_rc t) = None"
  by (simp add: sample_rc_def)

text \<open>
  C5. With the cookie store readable, the logout route answers 200 with
  \<^verbatim>\<open>success: true\<close> for every cookie store and every behaviour of the backend logout
  call, a rejection included, and leaves no \<^verbatim>\<open>auth-token\<close> cookie. A second call on
  the store left by the first, and so any call without the cookie, answers the same
  and sends nothing to the backend.
\<close>

theorem POST_logout_idempotent:
  assumes "cookies_failure rc = None"
  shows "lj_status (fst (snd (POST_logout api rc))) = 200
       \<and> lj_success (fst (snd (POST_logout api rc)))
       \<and> get_token (fst (POST_logout api rc)) = None
       \<and> POST_logout api' (fst (POST_logout api rc)) =
           (fst (POST_logout api rc),
            \<lparr>lj_status = 200, lj_success = True, lj_message = Some Msg_logout_ok,
             lj_error = None\<rparr>,
            [])"
  using assms
  by (simp add: POST_logout_def get_token_deleted cookies_failure_deleted
      call_apiLogout_no_token delete_token_idem)

theorem POST_logout_idempotent_witness:
  "cookies_failure (sample_rc (Some ''T'')) = None
   \<and> lj_status (fst (snd (POST_logout (\<lambda>h. Rejects (Error ''401'')) (sample_rc (Some ''T''))))) = 200
   \<and> lj_status (fst (snd (POST_logout (\<lambda>h. Rejects (Error ''401''))
        (fst (POST_logout (\<lambda>h. Rejects (Error ''401'')) (sample_rc (Some ''T''))))))) = 200
   \<and> cookies_failure (sample_rc None) = None
   \<and> lj_status (fst (snd (POST_logout (\<lambda>h. Rejects (Error ''401'')) (sample_rc None)))) = 200"
  using POST_logout_idempotent [OF sample_rc_readable [of "Some ''T''"],
      of "\<lambda>h. Rejects (Error ''401'')" "\<lambda>h. Rejects (Error ''401'')"]
    POST_logout_idempotent [OF sample_rc_readable [of None],
      of "\<lambda>h. Rejects (Error ''401'')" "\<lambda>h. Rejects (Error ''401'')"]
    sample_rc_readable
  by simp

lemma logout_action:
  "cookies_failure rc = None \<Longrightarrow>
     logout api rc = (delete_token rc, Redirected ''/login'', call_apiLogout api rc)"
  by (simp add: logout_def)

lemma AuthProvider_logout_flag:
  "\<not> isPending c \<Longrightarrow> isAuthenticated (AuthProvider_logout r c) = (r \<noteq> FetchResolves True)"
  by (cases r) (auto simp: AuthProvider_logout_def setAuth_def router_push_def)

lemma AuthProvider_logout_pushed:
  "\<not> isPending c \<Longrightarrow>
     pushed (AuthProvider_logout r c) =
       (if r = FetchResolves True then pushed c @ [''/login''] else pushed c)"
  by (cases r) (auto simp: AuthProvider_logout_def setAuth_def router_push_def)

text \<open>
  C1, as the claim states it, fails for the logout of the provider: when the fetch of the
  logout route is rejected, or resolves with a response that is not ok, the provider
  ends with the flag set to authenticated and pushes no route.
\<close>

theorem logout_always_unauthenticated_counterexample:
  "isAuthenticated (AuthProvider_logout FetchRejects (sample_client True))
   \<and> pushed (AuthProvider_logout FetchRejects (sample_client True)) = []
   \<and> isAuthenticated (AuthProvider_logout (FetchResolves False) (sample_client True))
   \<and> pushed (AuthProvider_logout (FetchResolves False) (sample_client True)) = []"
  by (simp add: AuthProvider_logout_def sample_client_def setAuth_def)

text \<open>
  C1, amended. The logout server action, with the cookie store readable, deletes the
  \<^verbatim>\<open>auth-token\<close> cookie and redirects to \<^verbatim>\<open>/login\<close> whether the backend logout call
  resolved or was rejected; the logout route has deleted the cookie whenever its
  response is ok. The logout of the provider, called while no transition is
  pending, ends unauthenticated with a push of \<^verbatim>\<open>/login\<close> exactly when the fetch of the
  logout route resolved with an ok response; after a rejected fetch or a response that
  is not ok it ends with the flag set to authenticated and pushes nothing. Called
  while a transition is pending it changes nothing.
\<close>

theorem logout_outcomes:
  "(cookies_failure rc = None \<longrightarrow>
      logout api rc = (delete_token rc, Redirected ''/login'', call_apiLogout api rc)
      \<and> get_token (delete_token rc) = None)
   \<and> (response_ok (lj_status (fst (snd (POST_logout api rc)))) \<longrightarrow>
        get_token (fst (POST_logout api rc)) = None)
   \<and> (\<not> isPending c \<longrightarrow>
        isAuthenticated (AuthProvider_logout r c) = (r \<noteq> FetchResolves True)
        \<and> pushed (AuthProvider_logout r c) =
            (if r = FetchResolves True then pushed c @ [''/login''] else pushed c))
   \<and> (isPending c \<longrightarrow> AuthProvider_logout r c = c)"
proof -
  have "response_ok (lj_status (fst (snd (POST_logout api rc)))) \<longrightarrow>
          get_token (fst (POST_logout api rc)) = None"
    by (cases "cookies_failure rc") (simp_all add: POST_logout_def response_ok_def get_token_deleted)
  moreover have "isPending c \<longrightarrow> AuthProvider_logout r c = c"
    by (simp add: AuthProvider_logout_def)
  ultimately show ?thesis
    by (simp add: logout_action get_token_deleted AuthProvider_logout_flag
        AuthProvider_logout_pushed)
qed

theorem logout_outcomes_witness:
  "cookies_failure (sample_rc (Some ''T'')) = None
   \<and> \<not> isPending (sample_client True)
   \<and> logout (\<lambda>h. Rejects (Error ''down'')) (sample_rc (Some ''T''))
       = (delete_token (sample_rc (Some ''T'')), Redirected ''/login'', [''Bearer T''])
   \<and> response_ok (lj_status (fst (snd (POST_logout (\<lambda>h. Rejects (Error ''down''))
         (sample_rc (Some ''T''))))))
   \<and> get_token (fst (POST_logout (\<lambda>h. Rejects (Error ''down'')) (sample_rc (Some ''T'')))) = None
   \<and> \<not> isAuthenticated (AuthProvider_logout (FetchResolves True) (sample_client True))
   \<and> pushed (AuthProvider_logout (FetchResolves True) (sample_client True)) = [''/login'']"
  using logout_outcomes [where rc = "sample_rc (Some ''T'')" and api = "\<lambda>h. Rejects (Error ''down'')"
      and c = "sample_client True" and r = "FetchResolves True"]
  by (simp add: sample_rc_def sample_client_def call_apiLogout_def get_token_def bearer_def
      auth_cookie_def POST_logout_def response_ok_def)

section \<open>The status operation\<close>

text \<open>
  C2, as the claim states it, fails: with a revoked token in the cookie, and equally with
  an expired one or with text that is no token, the status route and the status action
  answer authenticated, while authenticate of the backend core answers
  \<open>Unauthenticated\<close> for the same token.
\<close>

theorem status_tracks_validity_counterexample:
  "authenticated (GET_status (sample_rc (Some sample_token)))
   \<and> checkAuthStatus (sample_rc (Some sample_token))
   \<and> authenticate checksum_sign ''k'' 200 (revoke Map.empty sample_token 3700) sample_token
        = Inl Unauthenticated
   \<and> authenticate checksum_sign ''k'' 4000 Map.empty sample_token = Inl Unauthenticated
   \<and> authenticated (GET_status (sample_rc (Some ''no token'')))
   \<and> authenticate checksum_sign ''k'' 200 Map.empty ''no token'' = Inl Unauthenticated"
proof -
  have "sample_token \<noteq> []"
    by (simp add: sample_token_def issue_nonempty)
  then have "authenticated (GET_status (sample_rc (Some sample_token)))"
    and "checkAuthStatus (sample_rc (Some sample_token))"
    by (simp_all add: GET_status_def checkAuthStatus_def sample_rc_def get_token_def auth_cookie_def)
  moreover have "authenticate checksum_sign ''k'' 4000 Map.empty sample_token = Inl Unauthenticated"
    by (simp add: authenticate_def sample_token_def verify_issue)
  moreover have "authenticated (GET_status (sample_rc (Some ''no token'')))"
    by (simp add: GET_status_def sample_rc_def get_token_def auth_cookie_def)
  moreover have "authenticate checksum_sign ''k'' 200 Map.empty ''no token'' = Inl Unauthenticated"
    by (simp add: authenticate_def verify_def)
  ultimately show ?thesis
    using authenticate_revoked by simp
qed

text \<open>
  C2, amended. The boolean of the status route and of the status action is true
  exactly when the cookie store can be read and holds an \<^verbatim>\<open>auth-token\<close> cookie whose
  value is not empty; the two agree, and neither looks at the token itself.
\<close>

theorem status_is_cookie_presence:
  "authenticated (GET_status rc) =
     (cookies_failure rc = None \<and> (\<exists>c. jar rc ''auth-token'' = Some c \<and> cvalue c \<noteq> []))
   \<and> checkAuthStatus rc = authenticated (GET_status rc)"
  by (cases "jar rc ''auth-token''")
     (auto simp: GET_status_def checkAuthStatus_def get_token_def split: option.splits)

section \<open>Route guarding\<close>

lemma isPublicRoute_iff:
  "isPublicRoute p \<longleftrightarrow>
     p \<in> set publicRoutes \<or> (\<exists>r \<in> set publicRoutes. prefix (r @ ''/'') p)"
  by (auto simp: isPublicRoute_def list_ex_iff)

lemma on_status_pushed:
  "pushed (on_status k c) =
     (if periodic k \<and> result k = StatusResolves True False \<and> seen_auth k
         \<and> \<not> isPublicRoute (seen_path k)
      then pushed c @ [''/login''] else pushed c)"
  by (cases "result k") (auto simp: on_status_def Let_def router_push_def)

text \<open>
  C3, as the claim states it, fails: the pathname \<^verbatim>\<open>/login/reset\<close> is not an entry of the
  allow-list, and the guard pushes nothing for it while the flag is unauthenticated.
\<close>

theorem guard_exact_list_counterexample:
  "''/login/reset'' \<notin> set publicRoutes
   \<and> \<not> isAuthenticated (sample_client False)
   \<and> pushed (guard_effect ''/login/reset'' (sample_client False)) = []"
  by (simp add: publicRoutes_def guard_effect_def isPublicRoute_def sample_client_def)

text \<open>
  C3, amended. The allow-list is the fixed list \<^verbatim>\<open>/login\<close>, \<^verbatim>\<open>/register\<close>, \<^verbatim>\<open>/\<close>, and a
  pathname counts as allowed when it is an entry of the list or begins with an entry
  followed by a slash. For every pathname that is not allowed, the guarding effect
  pushes \<^verbatim>\<open>/login\<close> when the flag is unauthenticated, and the interval check pushes
  \<^verbatim>\<open>/login\<close> when an ok answer turns an authenticated flag to unauthenticated; for every
  allowed pathname neither pushes anything. The first revision of the provider
  compares the pathname with \<^verbatim>\<open>/login\<close> and \<^verbatim>\<open>/register\<close> only.
\<close>

theorem guard_redirects:
  "set publicRoutes = {''/login'', ''/register'', ''/''}
   \<and> guard_effect p c =
       (if \<not> isAuthenticated c
           \<and> \<not> (p \<in> set publicRoutes \<or> (\<exists>r \<in> set publicRoutes. prefix (r @ ''/'') p))
        then c\<lparr>pushed := pushed c @ [''/login'']\<rparr> else c)
   \<and> pushed (on_status k c) =
       (if periodic k \<and> result k = StatusResolves True False \<and> seen_auth k
           \<and> \<not> (seen_path k \<in> set publicRoutes
                 \<or> (\<exists>r \<in> set publicRoutes. prefix (r @ ''/'') (seen_path k)))
        then pushed c @ [''/login''] else pushed c)
   \<and> guard_effect_first p c =
       (if \<not> isAuthenticated c \<and> p \<notin> {''/login'', ''/register''}
        then c\<lparr>pushed := pushed c @ [''/login'']\<rparr> else c)"
proof -
  have "set publicRoutes = {''/login'', ''/register'', ''/''}"
    by (simp add: publicRoutes_def)
  moreover have "guard_effect_first p c =
       (if \<not> isAuthenticated c \<and> p \<notin> {''/login'', ''/register''}
        then c\<lparr>pushed := pushed c @ [''/login'']\<rparr> else c)"
    by (simp add: guard_effect_first_def publicRoutes_first_def router_push_def)
  ultimately show ?thesis
    unfolding on_status_pushed
    by (simp only: guard_effect_def isPublicRoute_iff router_push_def)
qed

theorem guard_redirects_witness:
  "pushed (guard_effect ''/profile'' (sample_client False)) = [''/login'']
   \<and> guard_effect ''/login'' (sample_client False) = sample_client False
   \<and> guard_effect ''/login/reset'' (sample_client False) = sample_client False
   \<and> guard_effect ''/profile'' (sample_client True) = sample_client True"
  using guard_redirects [of "''/profile''" "sample_client False"]
    guard_redirects [of "''/login''" "sample_client False"]
    guard_redirects [of "''/login/reset''" "sample_client False"]
    guard_redirects [of "''/profile''" "sample_client True"]
  by (simp add: sample_client_def)

section \<open>Reconciliation responses\<close>

lemma on_status_flag:
  "isAuthenticated (on_status k c) =
     (case result k of
        StatusRejects \<Rightarrow> isAuthenticated c
      | StatusResolves ok a \<Rightarrow> if ok \<and> a \<noteq> seen_auth k then a else isAuthenticated c)"
  by (cases "result k") (auto simp: on_status_def Let_def router_push_def)

lemma deliver_snoc: "deliver (ks @ [k]) c = on_status k (deliver ks c)"
  by (simp add: deliver_def)

text \<open>
  C4, as the claim states it, fails: the provider is signed out; the interval check,
  started second and answered unauthenticated, arrives first and leaves the flag
  unauthenticated; the check started first and answered authenticated arrives after it
  and sets the flag to authenticated.
\<close>

theorem stale_response_overrides_counterexample:
  "issued stale_check < issued newer_check
   \<and> \<not> isAuthenticated (deliver [newer_check] (sample_client False))
   \<and> isAuthenticated (deliver [newer_check, stale_check] (sample_client False))"
  by (simp add: deliver_def on_status_flag stale_check_def newer_check_def sample_client_def)

text \<open>
  C4, amended. Reconciliation responses take effect in the order in which they arrive.
  A response sets the flag to its answer when it is ok and its answer differs from the
  flag seen by the render that scheduled the check, and leaves the flag alone
  otherwise; the time at which the check was started plays no part, so no response is
  discarded for being older than one already handled.
\<close>

theorem reconciliation_by_arrival:
  "on_status (k\<lparr>issued := t\<rparr>) c = on_status k c
   \<and> isAuthenticated (deliver (ks @ [k]) c) =
       (case result k of
          StatusRejects \<Rightarrow> isAuthenticated (deliver ks c)
        | StatusResolves ok a \<Rightarrow>
            if ok \<and> a \<noteq> seen_auth k then a else isAuthenticated (deliver ks c))"
proof
  show "on_status (k\<lparr>issued := t\<rparr>) c = on_status k c"
    by (cases "result k") (simp_all add: on_status_def)
  show "isAuthenticated (deliver (ks @ [k]) c) =
       (case result k of
          StatusRejects \<Rightarrow> isAuthenticated (deliver ks c)
        | StatusResolves ok a \<Rightarrow>
            if ok \<and> a \<noteq> seen_auth k then a else isAuthenticated (deliver ks c))"
    by (simp only: deliver_snoc on_status_flag)
qed

theorem reconciliation_by_arrival_witness:
  "on_status (stale_check\<lparr>issued := 3\<rparr>) (sample_client False)
     = on_status stale_check (sample_client False)
   \<and> isAuthenticated (deliver ([newer_check] @ [stale_check]) (sample_client False))"
  using reconciliation_by_arrival [where k = stale_check and ks = "[newer_check]"
      and c = "sample_client False" and t = 3]
  by (simp add: stale_check_def)

end
